theory Spec2Isabelle
  imports Complex_Main "HOL-Library.Sublist"
begin

section \<open>Toolkit values used by bubbleswidget.py\<close>

text \<open>
  The widget computes with Python floats and hands them to Qt. Integers coming from Qt
  (widget size, mouse position, the argument of the \<open>setBubbles\<close> slot) are \<^typ>\<open>int\<close>.
  A float is the \<^typ>\<open>real\<close> number it stands for. The arithmetic of the gesture and
  property handlers is written over the reals; the arithmetic of \<open>animate\<close> on the
  position of a bubble, where rounding decides which bubbles leave, is written with the
  rounding of double addition, defined below. Qt objects are kept as the data the source
  passes to their constructors.
\<close>

record QPoint =
  ix :: int
  iy :: int

record QPointF =
  xp :: real
  yp :: real

record QRect =
  qx :: int
  qy :: int
  qw :: int
  qh :: int

record QRectF =
  rx :: real
  ry :: real
  rw :: real
  rh :: real

text \<open>\<open>QPointF(p)\<close> for a \<open>QPoint\<close> and \<open>QRectF(r)\<close> for a \<open>QRect\<close> keep the coordinates.\<close>

definition QPointF_of :: "QPoint \<Rightarrow> QPointF" where
  "QPointF_of p = \<lparr>xp = real_of_int (ix p), yp = real_of_int (iy p)\<rparr>"

definition QRectF_of :: "QRect \<Rightarrow> QRectF" where
  "QRectF_of r = \<lparr>rx = real_of_int (qx r), ry = real_of_int (qy r),
                  rw = real_of_int (qw r), rh = real_of_int (qh r)\<rparr>"

text \<open>\<open>QRectF(topLeft, size)\<close>, and the sum and difference of two points over the reals.\<close>

definition QRectF_at :: "QPointF \<Rightarrow> real \<times> real \<Rightarrow> QRectF" where
  "QRectF_at p sz = \<lparr>rx = xp p, ry = yp p, rw = fst sz, rh = snd sz\<rparr>"

definition padd :: "QPointF \<Rightarrow> QPointF \<Rightarrow> QPointF" where
  "padd p q = \<lparr>xp = xp p + xp q, yp = yp p + yp q\<rparr>"

definition psub :: "QPointF \<Rightarrow> QPointF \<Rightarrow> QPointF" where
  "psub p q = \<lparr>xp = xp p - xp q, yp = yp p - yp q\<rparr>"

text \<open>
  A colour is the constructor call that made it: four channel arguments, a name, or
  \<open>c.darker(f)\<close> of another colour.
\<close>

datatype color = QColor real real real real | NamedColor string | Darker color int

text \<open>
  \<open>QRadialGradient(center, radius, focalPoint)\<close> with its colour stops in the order the
  source sets them; a \<open>QBrush\<close> made from a gradient is that gradient.
\<close>

record QRadialGradient =
  center :: QPointF
  gradRadius :: real
  focalPoint :: QPointF
  stops :: "(real \<times> color) list"

type_synonym QBrush = QRadialGradient

definition radialGradient :: "QPointF \<Rightarrow> real \<Rightarrow> QPointF \<Rightarrow> QRadialGradient" where
  "radialGradient c r f = \<lparr>center = c, gradRadius = r, focalPoint = f, stops = []\<rparr>"

definition setColorAt :: "real \<Rightarrow> color \<Rightarrow> QRadialGradient \<Rightarrow> QRadialGradient" where
  "setColorAt t c g = g\<lparr>stops := stops g @ [(t, c)]\<rparr>"

record QTimer =
  singleShot :: bool
  active :: bool
  interval :: int

definition new_timer :: QTimer where
  "new_timer = \<lparr>singleShot = False, active = False, interval = 0\<rparr>"

definition timer_start :: "int \<Rightarrow> QTimer \<Rightarrow> QTimer" where
  "timer_start ms t = t\<lparr>active := True, interval := ms\<rparr>"

definition timer_stop :: "QTimer \<Rightarrow> QTimer" where
  "timer_stop t = t\<lparr>active := False\<rparr>"

datatype MouseButton = LeftButton | RightButton | MidButton

record QMouseEvent =
  button :: MouseButton
  pos :: QPoint
  accepted :: bool

record QPaintEvent =
  rect :: QRect

text \<open>The two signals of the widget, and the repaint requests it makes with \<open>update\<close>.\<close>

datatype signal = bubbleLeft | bubblesRemaining int

datatype region = toRect QRectF | whole

section \<open>Double addition\<close>

text \<open>
  \<open>to_double x\<close> is the binary64 number nearest to \<open>x\<close>, a tie going to the even
  significand. \<open>expo a\<close> is the exponent of the binade that holds \<open>a\<close>, looked for from
  1023 down to -1022; below \<open>2 ^ -1022\<close> it is -1022, which gives the subnormals their
  spacing. The spacing of the doubles in that binade is \<open>two_pow (expo a - 52)\<close>, and \<open>x\<close>
  is rounded to a multiple of it. Sums of magnitude \<open>2 ^ 1024\<close> or more, which double
  arithmetic turns into infinities, are outside what \<open>to_double\<close> describes. \<open>fadd\<close> is
  the sum of two doubles as the machine returns it; adding zero returns the other operand.
\<close>

definition two_pow :: "int \<Rightarrow> real" where
  "two_pow k = (if 0 \<le> k then 2 ^ nat k else 1 / 2 ^ nat (- k))"

fun pick_expo :: "int list \<Rightarrow> real \<Rightarrow> int" where
  "pick_expo [] a = - 1022"
| "pick_expo (k # ks) a = (if two_pow k \<le> a then k else pick_expo ks a)"

definition expo :: "real \<Rightarrow> int" where
  "expo a = pick_expo (rev [- 1022..1023]) a"

definition round_even :: "real \<Rightarrow> int" where
  "round_even r =
     (let f = \<lfloor>r\<rfloor>; d = r - real_of_int f
      in if d < 1 / 2 then f else if 1 / 2 < d then f + 1 else if even f then f else f + 1)"

definition to_double :: "real \<Rightarrow> real" where
  "to_double x = (let q = two_pow (expo \<bar>x\<bar> - 52) in real_of_int (round_even (x / q)) * q)"

definition fadd :: "real \<Rightarrow> real \<Rightarrow> real" where
  "fadd a b = (if b = 0 then a else if a = 0 then b else to_double (a + b))"

text \<open>\<open>QPointF + QPointF\<close> adds the coordinates as doubles.\<close>

definition padd_double :: "QPointF \<Rightarrow> QPointF \<Rightarrow> QPointF" where
  "padd_double p q = \<lparr>xp = fadd (xp p) (xp q), yp = fadd (yp p) (yp q)\<rparr>"

section \<open>class Bubble\<close>

text \<open>The attribute \<open>brush\<close> exists once \<open>updateBrush\<close> has run, which \<open>__init__\<close> does.\<close>

record Bubble =
  position :: QPointF
  radius :: real
  speed :: real
  innerColor :: color
  outerColor :: color
  brush :: "QBrush option"

definition updateBrush :: "Bubble \<Rightarrow> Bubble" where
  "updateBrush b =
     (let gradient = radialGradient \<lparr>xp = radius b, yp = radius b\<rparr> (radius b)
                       \<lparr>xp = radius b * 0.5, yp = radius b * 0.5\<rparr>;
          gradient = setColorAt 0 (QColor 255 255 255 255) gradient;
          gradient = setColorAt 0.25 (innerColor b) gradient;
          gradient = setColorAt 1 (outerColor b) gradient
      in b\<lparr>brush := Some gradient\<rparr>)"

definition Bubble_init :: "QPointF \<Rightarrow> real \<Rightarrow> real \<Rightarrow> color \<Rightarrow> color \<Rightarrow> Bubble" where
  "Bubble_init p r s ic oc =
     updateBrush \<lparr>position = p, radius = r, speed = s, innerColor = ic, outerColor = oc,
                  brush = None\<rparr>"

text \<open>The commands a \<open>QPainter\<close> receives.\<close>

datatype painter_op =
    Begin
  | SetRenderHintAntialiasing
  | FillRect QRect QBrush
  | SetPen color
  | Save
  | Translate real real
  | SetBrush "QBrush option"
  | DrawEllipse real real real real
  | Restore
  | End

definition drawBubble :: "Bubble \<Rightarrow> painter_op list" where
  "drawBubble b =
     [Save,
      Translate (xp (position b) - radius b) (yp (position b) - radius b),
      SetBrush (brush b),
      DrawEllipse 0.0 0.0 (2 * radius b) (2 * radius b),
      Restore]"

section \<open>class BubblesWidget\<close>

text \<open>
  The widget's own attributes, the part of the \<open>QWidget\<close> state the source reads or sets
  (size, minimum size, title, mouse tracking), the module-level random generator as the
  tape of values \<open>random.random()\<close> returns with a cursor into it, and the effects that
  leave the widget: the signals emitted and the repaints requested, oldest first.
\<close>

record BubblesWidget =
  author :: string
  pen :: color
  bubbles :: "Bubble list"
  backgroundColor1 :: color
  backgroundColor2 :: color
  newBubble :: "Bubble option"
  animation_timer :: QTimer
  bubbleTimer :: QTimer
  mouseTracking :: bool
  minimumSize :: "int \<times> int"
  windowTitle :: string
  width :: int
  height :: int
  tape :: "nat \<Rightarrow> real"
  cursor :: nat
  emitted :: "signal list"
  updates :: "region list"

definition random_random :: "BubblesWidget \<Rightarrow> real \<times> BubblesWidget" where
  "random_random w = (tape w (cursor w), w\<lparr>cursor := Suc (cursor w)\<rparr>)"

definition emit :: "signal \<Rightarrow> BubblesWidget \<Rightarrow> BubblesWidget" where
  "emit s w = w\<lparr>emitted := emitted w @ [s]\<rparr>"

definition update :: "region \<Rightarrow> BubblesWidget \<Rightarrow> BubblesWidget" where
  "update r w = w\<lparr>updates := updates w @ [r]\<rparr>"

text \<open>The rectangle every handler passes to \<open>update\<close> for a bubble, before \<open>toRect\<close>;
  \<open>extra\<close> is the \<open>bubble.speed\<close> that \<open>animate\<close> adds to the height.\<close>

definition damage :: "Bubble \<Rightarrow> real \<Rightarrow> QRectF" where
  "damage b extra =
     QRectF_at (psub (position b) \<lparr>xp = radius b + 1, yp = radius b + 1\<rparr>)
               (2 * radius b + 2, 2 * radius b + 2 + extra)"

definition randomColor :: "BubblesWidget \<Rightarrow> color \<times> BubblesWidget" where
  "randomColor w =
     (let (u1, w) = random_random w; red = 205 + u1 * 50;
          (u2, w) = random_random w; green = 205 + u2 * 50;
          (u3, w) = random_random w; blue = 205 + u3 * 50;
          (u4, w) = random_random w; alpha = 91 + u4 * 100
      in (QColor red green blue alpha, w))"

definition py_min3 :: "real \<Rightarrow> real \<Rightarrow> real \<Rightarrow> real" where
  "py_min3 a b c = min (min a b) c"

definition expandBubble :: "BubblesWidget \<Rightarrow> BubblesWidget" where
  "expandBubble w =
     (case newBubble w of
        None \<Rightarrow> w
      | Some b \<Rightarrow>
          let b = b\<lparr>radius := py_min3 (radius b + 4.0)
                                       (real_of_int (width w) / 8.0)
                                       (real_of_int (height w) / 8.0)\<rparr>;
              w = update (toRect (damage b 0)) w;
              b = updateBrush b
          in w\<lparr>newBubble := Some b\<rparr>)"

definition mousePressEvent :: "BubblesWidget \<Rightarrow> QMouseEvent \<Rightarrow> BubblesWidget \<times> QMouseEvent" where
  "mousePressEvent w event =
     (if button event = LeftButton \<and> newBubble w = None then
        let (u, w) = random_random w;
            (ic, w) = randomColor w;
            (oc, w) = randomColor w;
            w = w\<lparr>newBubble := Some (Bubble_init (QPointF_of (pos event)) 4.0 (1.0 + u * 7) ic oc)\<rparr>;
            w = w\<lparr>bubbleTimer := timer_start 50 (bubbleTimer w)\<rparr>
        in (w, event\<lparr>accepted := True\<rparr>)
      else (w, event))"

definition mouseMoveEvent :: "BubblesWidget \<Rightarrow> QMouseEvent \<Rightarrow> BubblesWidget \<times> QMouseEvent" where
  "mouseMoveEvent w event =
     (let w = (case newBubble w of
                 None \<Rightarrow> w
               | Some b \<Rightarrow>
                   let w = update (toRect (damage b 0)) w;
                       b = b\<lparr>position := QPointF_of (pos event)\<rparr>;
                       w = update (toRect (damage b 0)) w
                   in w\<lparr>newBubble := Some b\<rparr>)
      in (w, event\<lparr>accepted := True\<rparr>))"

definition mouseReleaseEvent :: "BubblesWidget \<Rightarrow> QMouseEvent \<Rightarrow> BubblesWidget \<times> QMouseEvent" where
  "mouseReleaseEvent w event =
     (let w = (case newBubble w of
                 None \<Rightarrow> w
               | Some b \<Rightarrow>
                   let w = w\<lparr>bubbles := bubbles w @ [b]\<rparr>;
                       w = w\<lparr>newBubble := None\<rparr>;
                       w = w\<lparr>bubbleTimer := timer_stop (bubbleTimer w)\<rparr>
                   in emit (bubblesRemaining (int (length (bubbles w)))) w)
      in (w, event\<lparr>accepted := True\<rparr>))"

text \<open>
  The loop of \<open>animate\<close> over \<open>self.bubbles\<close>: the local list \<open>bubbles\<close>, the flag \<open>left\<close>
  and the widget are carried along. The new position and the sum compared with 0 are
  double sums; the rectangle passed to \<open>update\<close> is that of \<open>damage\<close>, over the reals.
\<close>

fun animate_loop ::
  "Bubble list \<Rightarrow> Bubble list \<times> bool \<times> BubblesWidget \<Rightarrow> Bubble list \<times> bool \<times> BubblesWidget" where
  "animate_loop [] acc = acc"
| "animate_loop (bubble # rest) (kept, left, w) =
     (let bubble = bubble\<lparr>position :=
                     padd_double (position bubble) \<lparr>xp = 0, yp = - speed bubble\<rparr>\<rparr>;
          w = update (toRect (damage bubble (speed bubble))) w
      in if fadd (yp (position bubble)) (radius bubble) > 0
         then animate_loop rest (kept @ [bubble], left, w)
         else animate_loop rest (kept, True, emit bubbleLeft w))"

definition animate :: "BubblesWidget \<Rightarrow> BubblesWidget" where
  "animate w =
     (let (kept, left, w) = animate_loop (bubbles w) ([], False, w);
          w = (case newBubble w of
                 None \<Rightarrow> w
               | Some b \<Rightarrow> update (toRect (damage b 0)) w);
          w = w\<lparr>bubbles := kept\<rparr>
      in if left then emit (bubblesRemaining (int (length (bubbles w)))) w else w)"

definition getBubbles :: "BubblesWidget \<Rightarrow> int" where
  "getBubbles w = int (length (bubbles w))"

text \<open>The bubble that one round of the loop of \<open>setBubbles\<close> makes.\<close>

definition randomBubble :: "BubblesWidget \<Rightarrow> Bubble \<times> BubblesWidget" where
  "randomBubble w =
     (let (u1, w) = random_random w;
          (u2, w) = random_random w;
          p = \<lparr>xp = u1 * real_of_int (width w), yp = u2 * real_of_int (height w)\<rparr>;
          (u3, w) = random_random w;
          (u4, w) = random_random w;
          (ic, w) = randomColor w;
          (oc, w) = randomColor w;
          newBubble = Bubble_init p (4.0 + u3 * 20) (1.0 + u4 * 7) ic oc;
          newBubble = updateBrush newBubble
      in (newBubble, w))"

function setBubbles_loop :: "int \<Rightarrow> BubblesWidget \<Rightarrow> BubblesWidget" where
  "setBubbles_loop v w =
     (if int (length (bubbles w)) < v then
        let r = randomBubble w
        in setBubbles_loop v ((snd r)\<lparr>bubbles := bubbles (snd r) @ [fst r]\<rparr>)
      else w)"
  by pat_completeness auto
termination
  by (relation "measure (\<lambda>(v, w). nat (v - int (length (bubbles w))))")
     (auto simp: randomBubble_def randomColor_def random_random_def Let_def split_def)

definition setBubbles :: "int \<Rightarrow> BubblesWidget \<Rightarrow> BubblesWidget" where
  "setBubbles v w =
     (let v = max 0 v;
          w = setBubbles_loop v w;
          w = w\<lparr>bubbles := take (nat v) (bubbles w)\<rparr>;
          w = emit (bubblesRemaining v) w
      in update whole w)"

text \<open>
  \<open>paintEvent\<close> returns the widget it leaves behind and the commands it gave the painter.
  \<open>QRectF.intersects\<close> is Qt's and is a parameter. \<open>self.rect()\<close> is the rectangle
  \<open>(0, 0, width, height)\<close>, whose \<open>bottomRight()\<close> is \<open>(width - 1, height - 1)\<close>.
\<close>

fun paint_loop :: "(QRectF \<Rightarrow> QRectF \<Rightarrow> bool) \<Rightarrow> QRectF \<Rightarrow> Bubble list \<Rightarrow> painter_op list" where
  "paint_loop intersects r [] = []"
| "paint_loop intersects r (bubble # rest) =
     (if intersects (QRectF_at (psub (position bubble) \<lparr>xp = radius bubble, yp = radius bubble\<rparr>)
                               (2 * radius bubble, 2 * radius bubble)) r
      then drawBubble bubble else [])
     @ paint_loop intersects r rest"

definition paintEvent ::
  "(QRectF \<Rightarrow> QRectF \<Rightarrow> bool) \<Rightarrow> BubblesWidget \<Rightarrow> QPaintEvent \<Rightarrow> BubblesWidget \<times> painter_op list" where
  "paintEvent intersects w event =
     (let background = radialGradient (QPointF_of \<lparr>ix = 0, iy = 0\<rparr>) 500
                         (QPointF_of \<lparr>ix = width w - 1, iy = height w - 1\<rparr>);
          background = setColorAt 0 (backgroundColor1 w) background;
          background = setColorAt 1 (backgroundColor2 w) background;
          painter = [Begin, SetRenderHintAntialiasing, FillRect (rect event) background,
                     SetPen (pen w)];
          painter = painter @ paint_loop intersects (QRectF_of (rect event)) (bubbles w);
          painter = painter @ (case newBubble w of None \<Rightarrow> [] | Some b \<Rightarrow> drawBubble b)
      in (w, painter @ [End]))"

text \<open>The remaining property accessors and slots.\<close>

definition getAuthor :: "BubblesWidget \<Rightarrow> string" where
  "getAuthor w = author w"

definition setAuthor :: "string \<Rightarrow> BubblesWidget \<Rightarrow> BubblesWidget" where
  "setAuthor name w = w\<lparr>author := name\<rparr>"

definition resetAuthor :: "BubblesWidget \<Rightarrow> BubblesWidget" where
  "resetAuthor w = w\<lparr>author := ''David Boddie''\<rparr>"

definition setColor1 :: "color \<Rightarrow> BubblesWidget \<Rightarrow> BubblesWidget" where
  "setColor1 v w = update whole (w\<lparr>backgroundColor1 := v\<rparr>)"

definition setColor2 :: "color \<Rightarrow> BubblesWidget \<Rightarrow> BubblesWidget" where
  "setColor2 v w = update whole (w\<lparr>backgroundColor2 := v\<rparr>)"

definition stop :: "BubblesWidget \<Rightarrow> BubblesWidget" where
  "stop w = w\<lparr>animation_timer := timer_stop (animation_timer w)\<rparr>"

definition start :: "BubblesWidget \<Rightarrow> BubblesWidget" where
  "start w = w\<lparr>animation_timer := timer_start 25 (animation_timer w)\<rparr>"

text \<open>
  Construction. \<open>QWidget_init\<close> is the state before \<open>BubblesWidget.__init__\<close> has assigned
  anything: the size the toolkit gave the widget and the generator's tape are taken as
  given, the other attributes are not yet set. \<open>random.seed()\<close> restarts the generator;
  the tape is any sequence, so later draws go on reading it.
\<close>

definition QWidget_init :: "(nat \<Rightarrow> real) \<Rightarrow> int \<Rightarrow> int \<Rightarrow> BubblesWidget" where
  "QWidget_init t wd ht =
     \<lparr>author = [], pen = NamedColor [], bubbles = [],
      backgroundColor1 = NamedColor [], backgroundColor2 = NamedColor [],
      newBubble = None, animation_timer = new_timer, bubbleTimer = new_timer,
      mouseTracking = False, minimumSize = (0, 0), windowTitle = [],
      width = wd, height = ht, tape = t, cursor = 0, emitted = [], updates = []\<rparr>"

definition BubblesWidget_init :: "(nat \<Rightarrow> real) \<Rightarrow> int \<Rightarrow> int \<Rightarrow> BubblesWidget" where
  "BubblesWidget_init t wd ht =
     (let w = resetAuthor (QWidget_init t wd ht);
          w = w\<lparr>pen := NamedColor ''#cccccc''\<rparr>;
          w = w\<lparr>bubbles := []\<rparr>;
          (c1, w) = randomColor w;
          w = w\<lparr>backgroundColor1 := c1\<rparr>;
          (c2, w) = randomColor w;
          w = w\<lparr>backgroundColor2 := Darker c2 150\<rparr>;
          w = w\<lparr>newBubble := None\<rparr>;
          w = w\<lparr>animation_timer := timer_start 25 (new_timer\<lparr>singleShot := False\<rparr>)\<rparr>;
          w = w\<lparr>bubbleTimer := new_timer\<lparr>singleShot := False\<rparr>\<rparr>;
          w = w\<lparr>mouseTracking := True\<rparr>;
          w = w\<lparr>minimumSize := (200, 200)\<rparr>
      in w\<lparr>windowTitle := ''Bubble Maker''\<rparr>)"

section \<open>The event loop\<close>

text \<open>
  The toolkit delivers one event at a time to the handlers above. \<open>Resize\<close> is the
  toolkit changing the widget's size; the two timers call \<open>animate\<close> and \<open>expandBubble\<close>.
\<close>

datatype event =
    Press QMouseEvent
  | Move QMouseEvent
  | Release QMouseEvent
  | AnimationTick
  | GrowthTick
  | SetBubbles int
  | SetColor1 color
  | SetColor2 color
  | SetAuthor string
  | ResetAuthor
  | Stop
  | Start
  | Resize int int

fun dispatch :: "BubblesWidget \<Rightarrow> event \<Rightarrow> BubblesWidget" where
  "dispatch w (Press e) = fst (mousePressEvent w e)"
| "dispatch w (Move e) = fst (mouseMoveEvent w e)"
| "dispatch w (Release e) = fst (mouseReleaseEvent w e)"
| "dispatch w AnimationTick = animate w"
| "dispatch w GrowthTick = expandBubble w"
| "dispatch w (SetBubbles n) = setBubbles n w"
| "dispatch w (SetColor1 c) = setColor1 c w"
| "dispatch w (SetColor2 c) = setColor2 c w"
| "dispatch w (SetAuthor a) = setAuthor a w"
| "dispatch w ResetAuthor = resetAuthor w"
| "dispatch w Stop = stop w"
| "dispatch w Start = start w"
| "dispatch w (Resize wd ht) = w\<lparr>width := wd, height := ht\<rparr>"

definition run :: "BubblesWidget \<Rightarrow> event list \<Rightarrow> BubblesWidget" where
  "run w evs = foldl dispatch w evs"

section \<open>Vocabulary of the properties\<close>

text \<open>One animation step of a single bubble, and the test \<open>animate\<close> applies after it.\<close>

definition rise :: "Bubble \<Rightarrow> Bubble" where
  "rise b = b\<lparr>position := \<lparr>xp = xp (position b),
                             yp = fadd (yp (position b)) (- speed b)\<rparr>\<rparr>"

definition visible :: "Bubble \<Rightarrow> bool" where
  "visible b \<longleftrightarrow> fadd (yp (position b)) (radius b) > 0"

definition departed :: "Bubble \<Rightarrow> bool" where
  "departed b \<longleftrightarrow> fadd (yp (position b)) (radius b) \<le> 0"

text \<open>\<open>random.random()\<close> returns values in the half-open interval from 0 to 1.\<close>

definition in_unit :: "(nat \<Rightarrow> real) \<Rightarrow> bool" where
  "in_unit t \<longleftrightarrow> (\<forall>n. 0 \<le> t n \<and> t n < 1)"

definition synthesized_ok :: "BubblesWidget \<Rightarrow> Bubble \<Rightarrow> bool" where
  "synthesized_ok w b \<longleftrightarrow>
     4 \<le> radius b \<and> radius b \<le> 24 \<and> 1 \<le> speed b \<and> speed b \<le> 8 \<and>
     0 \<le> xp (position b) \<and> xp (position b) \<le> real_of_int (width w) \<and>
     0 \<le> yp (position b) \<and> yp (position b) \<le> real_of_int (height w)"

text \<open>
  What a sequence of painter commands puts on the device: the ellipses drawn, each at the
  translation in force and with the brush in force, in drawing order. \<open>Save\<close> pushes the
  painter's translation and brush, \<open>Restore\<close> pops them.
\<close>

record ellipse =
  ex :: real
  ey :: real
  ew :: real
  eh :: real
  fill :: "QBrush option"

fun painted ::
  "QPointF \<times> QBrush option \<Rightarrow> (QPointF \<times> QBrush option) list \<Rightarrow> painter_op list \<Rightarrow> ellipse list" where
  "painted st stack [] = []"
| "painted st stack (Save # ops) = painted st (st # stack) ops"
| "painted st [] (Restore # ops) = painted st [] ops"
| "painted st (s # stack) (Restore # ops) = painted s stack ops"
| "painted (org, br) stack (Translate dx dy # ops) =
     painted (padd org \<lparr>xp = dx, yp = dy\<rparr>, br) stack ops"
| "painted (org, br) stack (SetBrush b # ops) = painted (org, b) stack ops"
| "painted (org, br) stack (DrawEllipse x y w h # ops) =
     \<lparr>ex = xp org + x, ey = yp org + y, ew = w, eh = h, fill = br\<rparr>
       # painted (org, br) stack ops"
| "painted st stack (Begin # ops) = painted st stack ops"
| "painted st stack (SetRenderHintAntialiasing # ops) = painted st stack ops"
| "painted st stack (FillRect r b # ops) = painted st stack ops"
| "painted st stack (SetPen c # ops) = painted st stack ops"
| "painted st stack (End # ops) = painted st stack ops"

definition origin :: QPointF where
  "origin = \<lparr>xp = 0, yp = 0\<rparr>"

text \<open>A bubble's bounding box, and the ellipse that shows the bubble.\<close>

definition boundingBox :: "Bubble \<Rightarrow> QRectF" where
  "boundingBox b = \<lparr>rx = xp (position b) - radius b, ry = yp (position b) - radius b,
                    rw = 2 * radius b, rh = 2 * radius b\<rparr>"

definition disc :: "Bubble \<Rightarrow> ellipse" where
  "disc b = \<lparr>ex = xp (position b) - radius b, ey = yp (position b) - radius b,
             ew = 2 * radius b, eh = 2 * radius b, fill = brush b\<rparr>"

text \<open>An overlap test on rectangles, to run \<open>paintEvent\<close> on an example.\<close>

definition overlaps :: "QRectF \<Rightarrow> QRectF \<Rightarrow> bool" where
  "overlaps a b \<longleftrightarrow>
     rx a < rx b + rw b \<and> rx b < rx a + rw a \<and> ry a < ry b + rh b \<and> ry b < ry a + rh a"

text \<open>The growth timer runs exactly when a bubble is pending.\<close>

definition timer_matches :: "BubblesWidget \<Rightarrow> bool" where
  "timer_matches w \<longleftrightarrow> (active (bubbleTimer w) \<longleftrightarrow> newBubble w \<noteq> None)"

text \<open>
  The cap on the pending radius for a viewport of a given width and height, the pending
  radius of a widget, and the widgets a gesture goes through when the viewport is resized
  to each size of a list in turn with one growth tick after each resize.
\<close>

definition cap :: "int \<times> int \<Rightarrow> real" where
  "cap v = min (real_of_int (fst v) / 8) (real_of_int (snd v) / 8)"

definition pending_radius :: "BubblesWidget \<Rightarrow> real option" where
  "pending_radius w = map_option radius (newBubble w)"

fun growth :: "BubblesWidget \<Rightarrow> (int \<times> int) list \<Rightarrow> BubblesWidget list" where
  "growth w [] = []"
| "growth w (v # vs) =
     (let w' = run w [Resize (fst v) (snd v), GrowthTick] in w' # growth w' vs)"

definition radius_within_cap :: "BubblesWidget \<Rightarrow> bool" where
  "radius_within_cap w =
     (case newBubble w of None \<Rightarrow> True | Some b \<Rightarrow> radius b \<le> cap (width w, height w))"

definition radius_not_decreased :: "BubblesWidget \<Rightarrow> BubblesWidget \<Rightarrow> bool" where
  "radius_not_decreased w w' =
     (case newBubble w of
        None \<Rightarrow> True
      | Some b \<Rightarrow> (case newBubble w' of None \<Rightarrow> True | Some b' \<Rightarrow> radius b \<le> radius b'))"

text \<open>
  A concrete run: a 200 by 200 widget whose generator always returns one half, a press of
  the left button at (100, 50), and the pending bubble that press creates; the same field
  holding two bubbles, the first about to leave; and a gesture in a 400 by 400 widget that
  has seen nine growth ticks.
\<close>

definition demo_widget :: BubblesWidget where
  "demo_widget = BubblesWidget_init (\<lambda>n. 1 / 2) 200 200"

definition demo_press :: QMouseEvent where
  "demo_press = \<lparr>button = LeftButton, pos = \<lparr>ix = 100, iy = 50\<rparr>, accepted = False\<rparr>"

definition demo_growing :: BubblesWidget where
  "demo_growing = fst (mousePressEvent demo_widget demo_press)"

definition demo_bubble :: Bubble where
  "demo_bubble = Bubble_init \<lparr>xp = 100, yp = 50\<rparr> 4 (9 / 2)
                   (QColor 230 230 230 141) (QColor 230 230 230 141)"

definition demo_low :: Bubble where
  "demo_low = Bubble_init \<lparr>xp = 10, yp = 3\<rparr> 5 10
                (QColor 230 230 230 141) (QColor 230 230 230 141)"

definition demo_high :: Bubble where
  "demo_high = Bubble_init \<lparr>xp = 150, yp = 150\<rparr> 20 2
                 (QColor 230 230 230 141) (QColor 230 230 230 141)"

definition demo_field :: BubblesWidget where
  "demo_field = demo_growing\<lparr>bubbles := [demo_low, demo_high]\<rparr>"

definition shrink_start :: BubblesWidget where
  "shrink_start = run (BubblesWidget_init (\<lambda>n. 1 / 2) 400 400)
                    (Press demo_press # replicate 9 GrowthTick)"








section \<open>Facts about the concrete run\<close>

declare setBubbles_loop.simps [simp del]

lemma demo_widget_eq:
  "demo_widget =
     \<lparr>author = ''David Boddie'', pen = NamedColor ''#cccccc'', bubbles = [],
      backgroundColor1 = QColor 230 230 230 141,
      backgroundColor2 = Darker (QColor 230 230 230 141) 150,
      newBubble = None,
      animation_timer = \<lparr>singleShot = False, active = True, interval = 25\<rparr>,
      bubbleTimer = \<lparr>singleShot = False, active = False, interval = 0\<rparr>,
      mouseTracking = True, minimumSize = (200, 200), windowTitle = ''Bubble Maker'',
      width = 200, height = 200, tape = (\<lambda>n. 1 / 2), cursor = 8, emitted = [],
      updates = []\<rparr>"
  by (simp add: demo_widget_def BubblesWidget_init_def QWidget_init_def resetAuthor_def
      randomColor_def random_random_def Let_def split_def timer_start_def new_timer_def)

lemma demo_growing_eq:
  "demo_growing = demo_widget\<lparr>newBubble := Some demo_bubble, cursor := 17,
                              bubbleTimer := \<lparr>singleShot = False, active = True, interval = 50\<rparr>\<rparr>"
  by (simp add: demo_growing_def demo_widget_eq demo_press_def demo_bubble_def
      mousePressEvent_def randomColor_def random_random_def Let_def split_def
      timer_start_def QPointF_of_def)

lemma demo_bubble_fields:
  "position demo_bubble = \<lparr>xp = 100, yp = 50\<rparr>" "radius demo_bubble = 4"
  "speed demo_bubble = 9 / 2"
  "innerColor demo_bubble = QColor 230 230 230 141"
  "outerColor demo_bubble = QColor 230 230 230 141"
  by (simp_all add: demo_bubble_def Bubble_init_def updateBrush_def)

section \<open>Growth of the pending bubble\<close>

text \<open>
  C3. On a growth tick with a pending bubble, the pending bubble's radius becomes the
  minimum of radius + 4.0, width / 8 and height / 8, with the width and height the widget
  has at that tick, and its brush is rebuilt from the new radius in the same call; position,
  speed and colours stay.
\<close>

theorem expandBubble_grows:
  assumes "newBubble w = Some b"
  shows "\<exists>b'. newBubble (expandBubble w) = Some b' \<and>
           radius b' = min (radius b + 4.0)
                           (min (real_of_int (width w) / 8) (real_of_int (height w) / 8)) \<and>
           brush b' = Some \<lparr>center = \<lparr>xp = radius b', yp = radius b'\<rparr>,
                            gradRadius = radius b',
                            focalPoint = \<lparr>xp = radius b' * 0.5, yp = radius b' * 0.5\<rparr>,
                            stops = [(0, QColor 255 255 255 255), (0.25, innerColor b),
                                     (1, outerColor b)]\<rparr> \<and>
           position b' = position b \<and> speed b' = speed b \<and>
           innerColor b' = innerColor b \<and> outerColor b' = outerColor b"
  using assms
  by (simp add: expandBubble_def Let_def update_def updateBrush_def py_min3_def
      radialGradient_def setColorAt_def min.assoc)

theorem expandBubble_grows_witness:
  "newBubble demo_growing = Some demo_bubble \<and>
   (\<exists>b'. newBubble (expandBubble demo_growing) = Some b' \<and> radius b' = 8 \<and>
         brush b' = Some \<lparr>center = \<lparr>xp = 8, yp = 8\<rparr>, gradRadius = 8,
                          focalPoint = \<lparr>xp = 4, yp = 4\<rparr>,
                          stops = [(0, QColor 255 255 255 255), (0.25, QColor 230 230 230 141),
                                   (1, QColor 230 230 230 141)]\<rparr>)"
proof -
  have h: "newBubble demo_growing = Some demo_bubble"
    by (simp add: demo_growing_eq)
  have sz: "width demo_growing = 200" "height demo_growing = 200"
    by (simp_all add: demo_growing_eq demo_widget_eq)
  from expandBubble_grows [OF h] obtain b' where
    b: "newBubble (expandBubble demo_growing) = Some b'"
       "radius b' = min (radius demo_bubble + 4.0)
                        (min (real_of_int (width demo_growing) / 8)
                             (real_of_int (height demo_growing) / 8))"
       "brush b' = Some \<lparr>center = \<lparr>xp = radius b', yp = radius b'\<rparr>,
                            gradRadius = radius b',
                            focalPoint = \<lparr>xp = radius b' * 0.5, yp = radius b' * 0.5\<rparr>,
                            stops = [(0, QColor 255 255 255 255), (0.25, innerColor demo_bubble),
                                     (1, outerColor demo_bubble)]\<rparr>"
    by blast
  have r8: "radius b' = 8" using b(2) by (simp add: demo_bubble_fields sz)
  show ?thesis using h b(1) b(3) by (simp add: demo_bubble_fields r8)
qed

lemma demo_field_eq:
  "bubbles demo_field = [demo_low, demo_high]" "emitted demo_field = []"
  "newBubble demo_field = Some demo_bubble" "tape demo_field = (\<lambda>n. 1 / 2)"
  "width demo_field = 200" "height demo_field = 200"
  by (simp_all add: demo_field_def demo_growing_eq demo_widget_eq)

lemma demo_low_fields:
  "position demo_low = \<lparr>xp = 10, yp = 3\<rparr>" "radius demo_low = 5" "speed demo_low = 10"
  by (simp_all add: demo_low_def Bubble_init_def updateBrush_def)

lemma demo_high_fields:
  "position demo_high = \<lparr>xp = 150, yp = 150\<rparr>" "radius demo_high = 20" "speed demo_high = 2"
  by (simp_all add: demo_high_def Bubble_init_def updateBrush_def)

section \<open>Rounding to a double\<close>





lemma pick_expo_range: "pick_expo ks a \<in> insert (- 1022) (set ks)"
  by (induction ks) auto




lemma rev_upto_set: "set (rev [i..j]) = {i..j}"
  by simp


lemma expo_ge: "- 1022 \<le> expo a"
proof -
  have "expo a \<in> insert (- 1022) {- 1022..1023}"
    using pick_expo_range [of "rev [- 1022..1023]" a]
    unfolding expo_def rev_upto_set .
  then show ?thesis by auto
qed

















section \<open>The animation tick\<close>

lemma animate_loop_eq:
  "animate_loop bs (kept, left, w) =
     (kept @ filter visible (map rise bs),
      left \<or> (\<exists>b \<in> set (map rise bs). departed b),
      w\<lparr>emitted := emitted w @ replicate (length (filter departed (map rise bs))) bubbleLeft,
        updates := updates w @ map (\<lambda>b. toRect (damage b (speed b))) (map rise bs)\<rparr>)"
proof (induction bs arbitrary: kept left w)
  case Nil
  show ?case by simp
next
  case (Cons b bs)
  have mv: "b\<lparr>position := padd_double (position b) \<lparr>xp = 0, yp = - speed b\<rparr>\<rparr> = rise b"
    by (simp add: rise_def padd_double_def fadd_def)
  have sp: "speed (rise b) = speed b" by (simp add: rise_def)
  show ?case
  proof (cases "visible (rise b)")
    case True
    then have nd: "\<not> departed (rise b)" by (simp add: visible_def departed_def)
    from True have t: "fadd (yp (position (rise b))) (radius (rise b)) > 0"
      by (simp add: visible_def)
    show ?thesis
      using True nd t
      by (simp add: mv sp Let_def Cons.IH update_def)
  next
    case False
    then have d: "departed (rise b)" by (simp add: visible_def departed_def)
    from False have t: "\<not> fadd (yp (position (rise b))) (radius (rise b)) > 0"
      by (simp add: visible_def)
    show ?thesis
      using False d t
      by (simp add: mv sp Let_def Cons.IH update_def emit_def replicate_append_same)
  qed
qed

lemma animate_eq:
  "animate w =
     (let moved = map rise (bubbles w);
          w1 = w\<lparr>bubbles := filter visible moved,
                 emitted := emitted w @ replicate (length (filter departed moved)) bubbleLeft,
                 updates := updates w @ map (\<lambda>b. toRect (damage b (speed b))) moved
                            @ (case newBubble w of None \<Rightarrow> [] | Some b \<Rightarrow> [toRect (damage b 0)])\<rparr>
      in if \<exists>b \<in> set moved. departed b
         then w1\<lparr>emitted := emitted w1 @ [bubblesRemaining (int (length (filter visible moved)))]\<rparr>
         else w1)"
  by (cases "newBubble w")
     (simp_all add: animate_def animate_loop_eq Let_def update_def emit_def)















































text \<open>
  C10. The bubbles that survive an animation tick are the moved copies of a subsequence of
  the old collection, in the old order, and moving a bubble keeps its horizontal
  coordinate, radius, speed, inner and outer colour and brush.
\<close>

theorem animate_keeps_survivors:
  "(\<exists>ks. subseq ks (bubbles w) \<and> bubbles (animate w) = map rise ks) \<and>
   (\<forall>b. xp (position (rise b)) = xp (position b) \<and> radius (rise b) = radius b \<and>
        speed (rise b) = speed b \<and> innerColor (rise b) = innerColor b \<and>
        outerColor (rise b) = outerColor b \<and> brush (rise b) = brush b)"
proof -
  have "bubbles (animate w) = map rise (filter (visible \<circ> rise) (bubbles w))"
    by (simp add: animate_eq Let_def filter_map)
  moreover have "subseq (filter (visible \<circ> rise) (bubbles w)) (bubbles w)"
    by simp
  ultimately have "\<exists>ks. subseq ks (bubbles w) \<and> bubbles (animate w) = map rise ks"
    by blast
  then show ?thesis by (simp add: rise_def)
qed

theorem animate_keeps_survivors_witness:
  "(\<exists>ks. subseq ks [demo_low, demo_high] \<and> bubbles (animate demo_field) = map rise ks) \<and>
   xp (position (rise demo_high)) = 150 \<and> radius (rise demo_high) = 20 \<and>
   speed (rise demo_high) = 2 \<and> brush (rise demo_high) = brush demo_high"
  using animate_keeps_survivors [of demo_field]
  by (simp add: demo_field_eq demo_high_fields)

section \<open>The bubble count property\<close>

lemma randomColor_snd: "snd (randomColor w) = w\<lparr>cursor := cursor w + 4\<rparr>"
  by (simp add: randomColor_def random_random_def Let_def split_def)

lemma randomBubble_snd: "snd (randomBubble w) = w\<lparr>cursor := cursor w + 12\<rparr>"
  by (simp add: randomBubble_def random_random_def Let_def split_def randomColor_snd)

lemma randomBubble_fst:
  "position (fst (randomBubble w)) =
     \<lparr>xp = tape w (cursor w) * real_of_int (width w),
      yp = tape w (Suc (cursor w)) * real_of_int (height w)\<rparr> \<and>
   radius (fst (randomBubble w)) = 4 + tape w (cursor w + 2) * 20 \<and>
   speed (fst (randomBubble w)) = 1 + tape w (cursor w + 3) * 7"
  by (simp add: randomBubble_def random_random_def Let_def split_def randomColor_snd
      Bubble_init_def updateBrush_def numeral_2_eq_2 numeral_3_eq_3)

lemma unit_scale:
  assumes "0 \<le> u" "u < 1" "0 \<le> (k::real)"
  shows "0 \<le> u * k \<and> u * k \<le> k"
proof -
  have "u * k \<le> 1 * k" using assms by (intro mult_right_mono) simp_all
  with assms show ?thesis by simp
qed

lemma randomBubble_ok:
  assumes "in_unit (tape w)" "0 \<le> width w" "0 \<le> height w"
  shows "synthesized_ok w (fst (randomBubble w))"
proof -
  have u: "\<And>n. 0 \<le> tape w n \<and> tape w n < 1" using assms(1) by (simp add: in_unit_def)
  have x: "0 \<le> tape w (cursor w) * real_of_int (width w) \<and>
           tape w (cursor w) * real_of_int (width w) \<le> real_of_int (width w)"
    using u assms(2) by (intro unit_scale) simp_all
  have y: "0 \<le> tape w (Suc (cursor w)) * real_of_int (height w) \<and>
           tape w (Suc (cursor w)) * real_of_int (height w) \<le> real_of_int (height w)"
    using u assms(3) by (intro unit_scale) simp_all
  have r: "0 \<le> tape w (cursor w + 2) \<and> tape w (cursor w + 2) < 1" using u by blast
  have s: "0 \<le> tape w (cursor w + 3) \<and> tape w (cursor w + 3) < 1" using u by blast
  show ?thesis
    using x y r s by (simp add: synthesized_ok_def randomBubble_fst)
qed

lemma setBubbles_loop_frame:
  "setBubbles_loop v w =
     w\<lparr>bubbles := bubbles (setBubbles_loop v w), cursor := cursor (setBubbles_loop v w)\<rparr>"
proof (induction v w rule: setBubbles_loop.induct)
  case (1 v w)
  show ?case
  proof (cases "int (length (bubbles w)) < v")
    case True
    let ?w1 = "(snd (randomBubble w))\<lparr>bubbles := bubbles (snd (randomBubble w)) @ [fst (randomBubble w)]\<rparr>"
    have st: "setBubbles_loop v w = setBubbles_loop v ?w1"
      using True by (subst setBubbles_loop.simps) (simp add: Let_def)
    have "setBubbles_loop v ?w1 =
            ?w1\<lparr>bubbles := bubbles (setBubbles_loop v ?w1), cursor := cursor (setBubbles_loop v ?w1)\<rparr>"
      using "1.IH" [OF True refl] .
    also have "\<dots> = w\<lparr>bubbles := bubbles (setBubbles_loop v ?w1), cursor := cursor (setBubbles_loop v ?w1)\<rparr>"
      by (simp add: randomBubble_snd)
    finally show ?thesis by (simp add: st)
  next
    case False
    then have "setBubbles_loop v w = w"
      by (subst setBubbles_loop.simps) simp
    then show ?thesis by simp
  qed
qed

lemma setBubbles_loop_bubbles:
  "\<exists>new. bubbles (setBubbles_loop v w) = bubbles w @ new \<and>
         length new = nat (v - int (length (bubbles w))) \<and>
         (in_unit (tape w) \<and> 0 \<le> width w \<and> 0 \<le> height w
            \<longrightarrow> (\<forall>b \<in> set new. synthesized_ok w b))"
proof (induction v w rule: setBubbles_loop.induct)
  case (1 v w)
  show ?case
  proof (cases "int (length (bubbles w)) < v")
    case True
    let ?b = "fst (randomBubble w)"
    let ?w1 = "(snd (randomBubble w))\<lparr>bubbles := bubbles (snd (randomBubble w)) @ [?b]\<rparr>"
    have st: "setBubbles_loop v w = setBubbles_loop v ?w1"
      using True by (subst setBubbles_loop.simps) (simp add: Let_def)
    have w1: "bubbles ?w1 = bubbles w @ [?b]" "tape ?w1 = tape w" "width ?w1 = width w"
      "height ?w1 = height w"
      by (simp_all add: randomBubble_snd)
    have ok1: "synthesized_ok ?w1 = synthesized_ok w"
      by (simp add: synthesized_ok_def w1 fun_eq_iff)
    from "1.IH" [OF True refl] obtain new where
      n: "bubbles (setBubbles_loop v ?w1) = bubbles ?w1 @ new"
         "length new = nat (v - int (length (bubbles ?w1)))"
         "in_unit (tape ?w1) \<and> 0 \<le> width ?w1 \<and> 0 \<le> height ?w1
            \<longrightarrow> (\<forall>b \<in> set new. synthesized_ok ?w1 b)"
      by blast
    have a: "bubbles (setBubbles_loop v w) = bubbles w @ (?b # new)"
      using n(1) by (simp add: st w1)
    have b: "length (?b # new) = nat (v - int (length (bubbles w)))"
      using n(2) True by (simp add: w1)
    have c: "in_unit (tape w) \<and> 0 \<le> width w \<and> 0 \<le> height w
               \<longrightarrow> (\<forall>b \<in> set (?b # new). synthesized_ok w b)"
      using n(3) randomBubble_ok [of w] by (simp add: w1 ok1)
    from a b c show ?thesis by blast
  next
    case False
    then have "setBubbles_loop v w = w"
      by (subst setBubbles_loop.simps) simp
    with False show ?thesis by simp
  qed
qed

lemma setBubbles_eq:
  "setBubbles v w =
     w\<lparr>bubbles := take (nat (max 0 v)) (bubbles (setBubbles_loop (max 0 v) w)),
       cursor := cursor (setBubbles_loop (max 0 v) w),
       emitted := emitted w @ [bubblesRemaining (max 0 v)],
       updates := updates w @ [whole]\<rparr>"
proof -
  have "setBubbles v w =
          (setBubbles_loop (max 0 v) w)
            \<lparr>bubbles := take (nat (max 0 v)) (bubbles (setBubbles_loop (max 0 v) w)),
             emitted := emitted (setBubbles_loop (max 0 v) w) @ [bubblesRemaining (max 0 v)],
             updates := updates (setBubbles_loop (max 0 v) w) @ [whole]\<rparr>"
    by (simp add: setBubbles_def Let_def emit_def update_def)
  also have "\<dots> = w\<lparr>bubbles := take (nat (max 0 v)) (bubbles (setBubbles_loop (max 0 v) w)),
       cursor := cursor (setBubbles_loop (max 0 v) w),
       emitted := emitted w @ [bubblesRemaining (max 0 v)],
       updates := updates w @ [whole]\<rparr>"
    by (subst setBubbles_loop_frame, subst (2) setBubbles_loop_frame,
        subst (3) setBubbles_loop_frame) simp
  finally show ?thesis .
qed
text \<open>
  C2. Setting the bubble count to n on a field of M bubbles, with \<open>random.random()\<close> in
  the unit interval and a widget of non-negative width and height: if max(0, n) <= M the
  new collection is the first max(0, n) old bubbles in their order; if n > M the new
  collection has n bubbles, starts with the M old ones unchanged, and every added bubble
  has radius in [4, 24], speed in [1, 8] and position in [0, width] x [0, height]; in all
  cases \<open>bubblesRemaining\<close> is emitted once, with the new count.
\<close>

theorem setBubbles_resizes:
  assumes "in_unit (tape w)" "0 \<le> width w" "0 \<le> height w"
  shows "(max 0 n \<le> int (length (bubbles w)) \<longrightarrow>
            bubbles (setBubbles n w) = take (nat (max 0 n)) (bubbles w)) \<and>
         (int (length (bubbles w)) < n \<longrightarrow>
            int (length (bubbles (setBubbles n w))) = n \<and>
            take (length (bubbles w)) (bubbles (setBubbles n w)) = bubbles w \<and>
            list_all (\<lambda>b. 4 \<le> radius b \<and> radius b \<le> 24 \<and> 1 \<le> speed b \<and> speed b \<le> 8 \<and>
                          0 \<le> xp (position b) \<and> xp (position b) \<le> real_of_int (width w) \<and>
                          0 \<le> yp (position b) \<and> yp (position b) \<le> real_of_int (height w))
              (drop (length (bubbles w)) (bubbles (setBubbles n w)))) \<and>
         emitted (setBubbles n w) =
           emitted w @ [bubblesRemaining (int (length (bubbles (setBubbles n w))))]"
proof -
  let ?v = "max 0 n"
  obtain new where
    n: "bubbles (setBubbles_loop ?v w) = bubbles w @ new"
       "length new = nat (?v - int (length (bubbles w)))"
       "in_unit (tape w) \<and> 0 \<le> width w \<and> 0 \<le> height w
            \<longrightarrow> (\<forall>b \<in> set new. synthesized_ok w b)"
    using setBubbles_loop_bubbles [of ?v w] by blast
  have bs: "bubbles (setBubbles n w) = take (nat ?v) (bubbles w @ new)"
    by (simp add: setBubbles_eq n(1))
  have em: "emitted (setBubbles n w) = emitted w @ [bubblesRemaining ?v]"
    by (simp add: setBubbles_eq)
  have len: "int (length (bubbles (setBubbles n w))) = ?v"
    using n(2) by (simp add: bs min_def)
  have shrink: "bubbles (setBubbles n w) = take (nat ?v) (bubbles w)"
    if "?v \<le> int (length (bubbles w))"
    using that n(2) by (simp add: bs)
  have grow: "bubbles (setBubbles n w) = bubbles w @ new"
    if "int (length (bubbles w)) < n"
    using that n(2) by (simp add: bs)
  have ok: "\<forall>b \<in> set new. synthesized_ok w b"
    using n(3) assms by blast
  show ?thesis
    using shrink grow ok len em
    by (auto simp: synthesized_ok_def list_all_iff)
qed

theorem setBubbles_resizes_witness:
  "in_unit (tape demo_widget) \<and> 0 \<le> width demo_widget \<and> 0 \<le> height demo_widget \<and>
   length (bubbles demo_widget) = 0 \<and>
   int (length (bubbles (setBubbles 5 demo_widget))) = 5 \<and>
   list_all (\<lambda>b. 4 \<le> radius b \<and> radius b \<le> 24 \<and> 1 \<le> speed b \<and> speed b \<le> 8 \<and>
                 0 \<le> xp (position b) \<and> xp (position b) \<le> 200 \<and>
                 0 \<le> yp (position b) \<and> yp (position b) \<le> 200)
     (bubbles (setBubbles 5 demo_widget)) \<and>
   emitted (setBubbles 5 demo_widget) = [bubblesRemaining 5] \<and>
   in_unit (tape demo_field) \<and> 0 \<le> width demo_field \<and> 0 \<le> height demo_field \<and>
   bubbles (setBubbles 1 demo_field) = [demo_low] \<and>
   emitted (setBubbles 1 demo_field) = [bubblesRemaining 1]"
proof -
  have a: "in_unit (tape demo_widget)" "0 \<le> width demo_widget" "0 \<le> height demo_widget"
    by (simp_all add: in_unit_def demo_widget_eq)
  have b: "in_unit (tape demo_field)" "0 \<le> width demo_field" "0 \<le> height demo_field"
    by (simp_all add: in_unit_def demo_field_eq)
  have e: "bubbles demo_widget = []" "emitted demo_widget = []" "width demo_widget = 200"
    "height demo_widget = 200"
    by (simp_all add: demo_widget_eq)
  show ?thesis
    using setBubbles_resizes [OF a, of 5] setBubbles_resizes [OF b, of 1] a b
    by (simp add: e demo_field_eq)
qed

text \<open>
  C8. Setting the bubble count to a negative number gives the same widget, with the same
  signals emitted, as setting it to 0: the collection is emptied and \<open>bubblesRemaining(0)\<close>
  is emitted.
\<close>

theorem setBubbles_negative_is_zero:
  assumes "n < 0"
  shows "setBubbles n w = setBubbles 0 w \<and>
         bubbles (setBubbles n w) = [] \<and>
         emitted (setBubbles n w) = emitted w @ [bubblesRemaining 0]"
  using assms by (simp add: setBubbles_eq max_def)

theorem setBubbles_negative_is_zero_witness:
  "(-3::int) < 0 \<and> setBubbles (-3) demo_field = setBubbles 0 demo_field \<and>
   bubbles (setBubbles (-3) demo_field) = [] \<and>
   emitted (setBubbles (-3) demo_field) = [bubblesRemaining 0]"
proof -
  have n: "(-3::int) < 0" by simp
  from setBubbles_negative_is_zero [OF n, of demo_field] have
    "setBubbles (-3) demo_field = setBubbles 0 demo_field"
    "bubbles (setBubbles (-3) demo_field) = []"
    "emitted (setBubbles (-3) demo_field) = emitted demo_field @ [bubblesRemaining 0]"
    by blast+
  then show ?thesis by (simp add: demo_field_eq)
qed

section \<open>The press and release of a gesture\<close>

text \<open>
  C5. A press of the left button, with \<open>random.random()\<close> in the unit interval: if no
  bubble is pending, one is created at the press point with radius 4.0 and speed in
  [1, 8), the growth timer is started with an interval of 50, and the collection is
  unchanged; if a bubble is pending, the widget is left exactly as it was.
\<close>

theorem mousePressEvent_creates_or_ignores:
  assumes "button event = LeftButton" "in_unit (tape w)"
  shows "(newBubble w = None \<longrightarrow>
            (\<exists>b. newBubble (fst (mousePressEvent w event)) = Some b \<and>
                 position b = QPointF_of (pos event) \<and> radius b = 4.0 \<and>
                 1 \<le> speed b \<and> speed b < 8) \<and>
            active (bubbleTimer (fst (mousePressEvent w event))) \<and>
            interval (bubbleTimer (fst (mousePressEvent w event))) = 50 \<and>
            bubbles (fst (mousePressEvent w event)) = bubbles w) \<and>
         (newBubble w \<noteq> None \<longrightarrow> fst (mousePressEvent w event) = w)"
proof -
  have u: "0 \<le> tape w (cursor w) \<and> tape w (cursor w) < 1"
    using assms(2) by (simp add: in_unit_def)
  show ?thesis
    using assms(1) u
    by (simp add: mousePressEvent_def random_random_def Let_def split_def randomColor_snd
        Bubble_init_def updateBrush_def timer_start_def)
qed

theorem mousePressEvent_creates_or_ignores_witness:
  "button demo_press = LeftButton \<and> in_unit (tape demo_widget) \<and>
   newBubble demo_widget = None \<and>
   (\<exists>b. newBubble (fst (mousePressEvent demo_widget demo_press)) = Some b \<and>
        position b = \<lparr>xp = 100, yp = 50\<rparr> \<and> radius b = 4 \<and> 1 \<le> speed b \<and> speed b < 8) \<and>
   active (bubbleTimer (fst (mousePressEvent demo_widget demo_press))) \<and>
   in_unit (tape demo_growing) \<and> newBubble demo_growing \<noteq> None \<and>
   fst (mousePressEvent demo_growing demo_press) = demo_growing"
proof -
  have b: "button demo_press = LeftButton" by (simp add: demo_press_def)
  have t: "in_unit (tape demo_widget)" by (simp add: in_unit_def demo_widget_eq)
  have t': "in_unit (tape demo_growing)" by (simp add: in_unit_def demo_growing_eq demo_widget_eq)
  have n: "newBubble demo_widget = None" by (simp add: demo_widget_eq)
  have n': "newBubble demo_growing \<noteq> None" by (simp add: demo_growing_eq)
  have p: "QPointF_of (pos demo_press) = \<lparr>xp = 100, yp = 50\<rparr>"
    by (simp add: demo_press_def QPointF_of_def)
  show ?thesis
    using mousePressEvent_creates_or_ignores [OF b t]
      mousePressEvent_creates_or_ignores [OF b t'] b t t' n n'
    by (simp add: p)
qed

text \<open>
  C6. A release while a bubble is pending appends that bubble, unchanged, to the end of
  the collection, clears the pending bubble, stops the growth timer and emits
  \<open>bubblesRemaining\<close> with the length of the collection that now includes the bubble.
\<close>

theorem mouseReleaseEvent_commits:
  assumes "newBubble w = Some b"
  shows "bubbles (fst (mouseReleaseEvent w event)) = bubbles w @ [b] \<and>
         newBubble (fst (mouseReleaseEvent w event)) = None \<and>
         \<not> active (bubbleTimer (fst (mouseReleaseEvent w event))) \<and>
         emitted (fst (mouseReleaseEvent w event)) =
           emitted w @ [bubblesRemaining
                          (int (length (bubbles (fst (mouseReleaseEvent w event)))))] \<and>
         length (bubbles (fst (mouseReleaseEvent w event))) = length (bubbles w) + 1"
  using assms
  by (simp add: mouseReleaseEvent_def Let_def emit_def timer_stop_def)

theorem mouseReleaseEvent_commits_witness:
  "newBubble demo_growing = Some demo_bubble \<and>
   bubbles (fst (mouseReleaseEvent demo_growing demo_press)) = [demo_bubble] \<and>
   newBubble (fst (mouseReleaseEvent demo_growing demo_press)) = None \<and>
   \<not> active (bubbleTimer (fst (mouseReleaseEvent demo_growing demo_press))) \<and>
   emitted (fst (mouseReleaseEvent demo_growing demo_press)) = [bubblesRemaining 1]"
proof -
  have h: "newBubble demo_growing = Some demo_bubble" by (simp add: demo_growing_eq)
  have e: "bubbles demo_growing = []" "emitted demo_growing = []"
    by (simp_all add: demo_growing_eq demo_widget_eq)
  show ?thesis
    using mouseReleaseEvent_commits [OF h, of demo_press] h by (simp add: e)
qed

section \<open>Painting\<close>

lemma painted_drawBubble:
  "painted (origin, br) stack (drawBubble b @ ops) = disc b # painted (origin, br) stack ops"
  by (simp add: drawBubble_def disc_def origin_def padd_def)

lemma painted_paint_loop:
  "painted (origin, br) stack (paint_loop isects r bs @ ops) =
     map disc (filter (\<lambda>b. isects (boundingBox b) r) bs) @ painted (origin, br) stack ops"
proof (induction bs)
  case Nil
  show ?case by simp
next
  case (Cons b bs)
  have bb: "QRectF_at (psub (position b) \<lparr>xp = radius b, yp = radius b\<rparr>)
              (2 * radius b, 2 * radius b) = boundingBox b"
    by (simp add: QRectF_at_def psub_def boundingBox_def)
  show ?case
    by (simp add: bb painted_drawBubble Cons.IH)
qed

text \<open>
  C7. For any region and any widget, \<open>paintEvent\<close> draws the bubbles of the collection
  whose bounding box intersects the region, and no others, in collection order, then the
  pending bubble if there is one, each as the ellipse of its bounding box with the bubble's
  brush; the widget, with its bubbles, is returned as it was.
\<close>

theorem paintEvent_draws_intersecting:
  "painted (origin, None) [] (snd (paintEvent isects w event)) =
     map disc (filter (\<lambda>b. isects (boundingBox b) (QRectF_of (rect event))) (bubbles w))
     @ (case newBubble w of None \<Rightarrow> [] | Some b \<Rightarrow> [disc b]) \<and>
   fst (paintEvent isects w event) = w"
proof -
  have tail: "painted (origin, None) []
                ((case newBubble w of None \<Rightarrow> [] | Some b \<Rightarrow> drawBubble b) @ [End]) =
              (case newBubble w of None \<Rightarrow> [] | Some b \<Rightarrow> [disc b])"
    by (cases "newBubble w") (simp_all add: painted_drawBubble)
  show ?thesis
    by (simp add: paintEvent_def Let_def painted_paint_loop tail)
qed

theorem paintEvent_draws_intersecting_witness:
  "painted (origin, None) []
     (snd (paintEvent overlaps demo_field \<lparr>rect = \<lparr>qx = 0, qy = 0, qw = 50, qh = 50\<rparr>\<rparr>)) =
     [disc demo_low, disc demo_bubble] \<and>
   fst (paintEvent overlaps demo_field \<lparr>rect = \<lparr>qx = 0, qy = 0, qw = 50, qh = 50\<rparr>\<rparr>) = demo_field"
proof -
  have l: "overlaps (boundingBox demo_low) (QRectF_of \<lparr>qx = 0, qy = 0, qw = 50, qh = 50\<rparr>)"
    by (simp add: overlaps_def boundingBox_def QRectF_of_def demo_low_fields)
  have h: "\<not> overlaps (boundingBox demo_high) (QRectF_of \<lparr>qx = 0, qy = 0, qw = 50, qh = 50\<rparr>)"
    by (simp add: overlaps_def boundingBox_def QRectF_of_def demo_high_fields)
  show ?thesis
    using paintEvent_draws_intersecting
            [of overlaps demo_field "\<lparr>rect = \<lparr>qx = 0, qy = 0, qw = 50, qh = 50\<rparr>\<rparr>"] l h
    by (simp add: demo_field_eq)
qed

section \<open>The growth timer and the pending bubble\<close>

lemma press_matches: "timer_matches w \<Longrightarrow> timer_matches (fst (mousePressEvent w e))"
  by (simp add: timer_matches_def mousePressEvent_def random_random_def Let_def split_def
      randomColor_snd timer_start_def)

lemma move_matches: "timer_matches w \<Longrightarrow> timer_matches (fst (mouseMoveEvent w e))"
  by (cases "newBubble w")
     (simp_all add: timer_matches_def mouseMoveEvent_def Let_def update_def)

lemma release_matches: "timer_matches w \<Longrightarrow> timer_matches (fst (mouseReleaseEvent w e))"
  by (cases "newBubble w")
     (simp_all add: timer_matches_def mouseReleaseEvent_def Let_def emit_def timer_stop_def)

lemma animate_matches: "timer_matches w \<Longrightarrow> timer_matches (animate w)"
  by (simp add: timer_matches_def animate_eq Let_def)

lemma expand_matches: "timer_matches w \<Longrightarrow> timer_matches (expandBubble w)"
  by (cases "newBubble w")
     (simp_all add: timer_matches_def expandBubble_def Let_def update_def)

lemma setBubbles_matches: "timer_matches w \<Longrightarrow> timer_matches (setBubbles n w)"
  by (simp add: timer_matches_def setBubbles_eq)

lemma dispatch_matches:
  assumes "timer_matches w"
  shows "timer_matches (dispatch w e)"
proof (cases e)
  case (Press x)
  then show ?thesis using assms by (simp add: press_matches)
next
  case (Move x)
  then show ?thesis using assms by (simp add: move_matches)
next
  case (Release x)
  then show ?thesis using assms by (simp add: release_matches)
next
  case AnimationTick
  then show ?thesis using assms by (simp add: animate_matches)
next
  case GrowthTick
  then show ?thesis using assms by (simp add: expand_matches)
next
  case (SetBubbles n)
  then show ?thesis using assms by (simp add: setBubbles_matches)
next
  case (SetColor1 c)
  then show ?thesis using assms by (simp add: timer_matches_def setColor1_def update_def)
next
  case (SetColor2 c)
  then show ?thesis using assms by (simp add: timer_matches_def setColor2_def update_def)
next
  case (SetAuthor a)
  then show ?thesis using assms by (simp add: timer_matches_def setAuthor_def)
next
  case ResetAuthor
  then show ?thesis using assms by (simp add: timer_matches_def resetAuthor_def)
next
  case Stop
  then show ?thesis using assms by (simp add: timer_matches_def stop_def)
next
  case Start
  then show ?thesis using assms by (simp add: timer_matches_def start_def)
next
  case (Resize wd ht)
  then show ?thesis using assms by (simp add: timer_matches_def)
qed

lemma run_matches: "timer_matches w \<Longrightarrow> timer_matches (run w evs)"
  unfolding run_def
  by (induction evs arbitrary: w) (simp_all add: dispatch_matches)

lemma init_matches: "timer_matches (BubblesWidget_init t wd ht)"
  by (simp add: timer_matches_def BubblesWidget_init_def QWidget_init_def resetAuthor_def
      randomColor_snd Let_def split_def new_timer_def)

text \<open>
  C9. In every state that a sequence of presses, moves, releases, animation ticks, growth
  ticks, property settings, starts, stops and resizes leads to from a newly constructed
  widget, the growth timer is active if and only if a bubble is pending.
\<close>

theorem growth_timer_iff_pending:
  "active (bubbleTimer (run (BubblesWidget_init t wd ht) evs)) \<longleftrightarrow>
   newBubble (run (BubblesWidget_init t wd ht) evs) \<noteq> None"
  using run_matches [OF init_matches, of t wd ht evs]
  by (simp add: timer_matches_def)

theorem growth_timer_iff_pending_witness:
  "active (bubbleTimer (run demo_widget [Press demo_press, GrowthTick])) \<and>
   newBubble (run demo_widget [Press demo_press, GrowthTick]) \<noteq> None \<and>
   \<not> active (bubbleTimer (run demo_widget [Press demo_press, GrowthTick, Release demo_press])) \<and>
   newBubble (run demo_widget [Press demo_press, GrowthTick, Release demo_press]) = None"
proof -
  have p: "newBubble (run demo_widget [Press demo_press, GrowthTick]) \<noteq> None"
    by (simp add: run_def demo_growing_def [symmetric] demo_growing_eq expandBubble_def
        Let_def update_def)
  have r: "newBubble (run demo_widget [Press demo_press, GrowthTick, Release demo_press]) = None"
    by (simp add: run_def demo_growing_def [symmetric] demo_growing_eq expandBubble_def
        Let_def update_def mouseReleaseEvent_def emit_def)
  show ?thesis
    using growth_timer_iff_pending [of "\<lambda>n. 1 / 2" 200 200 "[Press demo_press, GrowthTick]"]
      growth_timer_iff_pending
        [of "\<lambda>n. 1 / 2" 200 200 "[Press demo_press, GrowthTick, Release demo_press]"] p r
    by (simp add: demo_widget_def)
qed

section \<open>The pending radius over a gesture\<close>

lemma expandBubble_radius:
  "newBubble w = Some b \<Longrightarrow>
   \<exists>b'. newBubble (expandBubble w) = Some b' \<and>
        radius b' = min (radius b + 4) (cap (width w, height w))"
  by (simp add: expandBubble_def Let_def update_def updateBrush_def py_min3_def cap_def min.assoc)

lemma growth_step:
  assumes "newBubble w = Some b"
  shows "\<exists>b'. newBubble (run w [Resize (fst v) (snd v), GrowthTick]) = Some b' \<and>
              radius b' = min (radius b + 4) (cap v)"
proof -
  have "newBubble (w\<lparr>width := fst v, height := snd v\<rparr>) = Some b" using assms by simp
  from expandBubble_radius [OF this] show ?thesis by (simp add: run_def)
qed

lemma shrink_start_eq:
  "shrink_start =
     (BubblesWidget_init (\<lambda>n. 1 / 2) 400 400)
       \<lparr>newBubble := Some (updateBrush (demo_bubble\<lparr>radius := 40\<rparr>)), cursor := 17,
        bubbleTimer := \<lparr>singleShot = False, active = True, interval = 50\<rparr>,
        updates := map (\<lambda>k. toRect (damage (demo_bubble\<lparr>radius := 4 * real k\<rparr>) 0))
                     [2, 3, 4, 5, 6, 7, 8, 9, 10]\<rparr>"
  by (simp add: shrink_start_def run_def demo_press_def demo_bubble_def
      BubblesWidget_init_def QWidget_init_def resetAuthor_def mousePressEvent_def
      randomColor_def random_random_def Let_def split_def timer_start_def new_timer_def
      QPointF_of_def Bubble_init_def updateBrush_def expandBubble_def update_def py_min3_def
      numeral_eq_Suc damage_def)

text \<open>
  C4, as stated, fails when the viewport shrinks during the gesture. A pending bubble has
  grown to radius 40 in a 400 by 400 widget; the widget is resized to 200 by 200, where the
  cap is 25: before the next growth tick the radius exceeds the cap, and the tick lowers the
  radius from 40 to 25.
\<close>

theorem growth_radius_counterexample:
  "pending_radius shrink_start = Some 40 \<and> cap (200, 200) = 25 \<and>
   pending_radius (run shrink_start [Resize 200 200]) = Some 40 \<and>
   \<not> radius_within_cap (run shrink_start [Resize 200 200]) \<and>
   pending_radius (run shrink_start [Resize 200 200, GrowthTick]) = Some 25 \<and>
   \<not> radius_not_decreased shrink_start (run shrink_start [Resize 200 200, GrowthTick])"
  by (simp add: shrink_start_eq pending_radius_def cap_def run_def radius_within_cap_def
      radius_not_decreased_def expandBubble_def Let_def update_def updateBrush_def py_min3_def)

text \<open>
  C4, amended. Take a gesture with a pending bubble and any list of viewport sizes, the
  viewport being resized to each in turn with one growth tick after each resize. After
  every tick a bubble is still pending and its radius is at most min(width, height) / 8 of
  the viewport of that tick. Across a tick the radius does not decrease if and only if the
  radius before the tick is at most the cap of that tick, and at a tick whose cap is below
  the radius before it the radius becomes that cap. So the radii at the start and after
  each tick form a non-decreasing sequence if and only if at every tick the radius before
  the tick is at most the cap of that tick.
\<close>

theorem growth_radii_capped_and_monotone:
  assumes "newBubble w = Some b"
  shows "\<exists>rs. map pending_radius (growth w vs) = map Some rs \<and>
              list_all2 (\<lambda>r v. r \<le> cap v) rs vs \<and>
              list_all2 (\<lambda>p v. (fst p \<le> snd p) = (fst p \<le> cap v))
                (zip (radius b # rs) rs) vs \<and>
              list_all2 (\<lambda>p v. cap v < fst p \<longrightarrow> snd p = cap v)
                (zip (radius b # rs) rs) vs \<and>
              sorted (radius b # rs) =
                list_all2 (\<lambda>r v. r \<le> cap v) (butlast (radius b # rs)) vs"
  using assms
proof (induction vs arbitrary: w b)
  case Nil
  show ?case by simp
next
  case (Cons v vs)
  let ?w' = "run w [Resize (fst v) (snd v), GrowthTick]"
  from growth_step [OF Cons.prems, of v] obtain b' where
    b': "newBubble ?w' = Some b'" "radius b' = min (radius b + 4) (cap v)"
    by blast
  from Cons.IH [OF b'(1)] obtain rs where
    rs: "map pending_radius (growth ?w' vs) = map Some rs"
        "list_all2 (\<lambda>r v. r \<le> cap v) rs vs"
        "list_all2 (\<lambda>p v. (fst p \<le> snd p) = (fst p \<le> cap v)) (zip (radius b' # rs) rs) vs"
        "list_all2 (\<lambda>p v. cap v < fst p \<longrightarrow> snd p = cap v) (zip (radius b' # rs) rs) vs"
        "sorted (radius b' # rs) =
           list_all2 (\<lambda>r v. r \<le> cap v) (butlast (radius b' # rs)) vs"
    by blast
  let ?rs = "radius b' # rs"
  have up: "(radius b \<le> radius b') = (radius b \<le> cap v)"
    by (auto simp: b'(2))
  have down: "cap v < radius b \<longrightarrow> radius b' = cap v"
    by (auto simp: b'(2))
  have 1: "map pending_radius (growth w (v # vs)) = map Some ?rs"
    using rs(1) b'(1) by (simp add: Let_def pending_radius_def)
  have 2: "list_all2 (\<lambda>r v. r \<le> cap v) ?rs (v # vs)"
    using rs(2) b'(2) by simp
  have 3: "list_all2 (\<lambda>p v. (fst p \<le> snd p) = (fst p \<le> cap v))
             (zip (radius b # ?rs) ?rs) (v # vs)"
    using rs(3) up by simp
  have 4: "list_all2 (\<lambda>p v. cap v < fst p \<longrightarrow> snd p = cap v)
             (zip (radius b # ?rs) ?rs) (v # vs)"
    using rs(4) down by simp
  have 5: "sorted (radius b # ?rs) =
             list_all2 (\<lambda>r v. r \<le> cap v) (butlast (radius b # ?rs)) (v # vs)"
  proof -
    have "sorted (radius b # ?rs) = (radius b \<le> radius b' \<and> sorted ?rs)"
      by auto
    also have "\<dots> = (radius b \<le> cap v \<and>
                      list_all2 (\<lambda>r v. r \<le> cap v) (butlast ?rs) vs)"
      using up rs(5) by simp
    also have "\<dots> = list_all2 (\<lambda>r v. r \<le> cap v) (butlast (radius b # ?rs)) (v # vs)"
      by simp
    finally show ?thesis .
  qed
  from 1 2 3 4 5 show ?case by blast
qed

theorem growth_radii_capped_and_monotone_witness:
  "newBubble demo_growing = Some demo_bubble \<and>
   map pending_radius (growth demo_growing [(800, 800), (400, 400)]) = [Some 8, Some 12] \<and>
   list_all2 (\<lambda>r v. r \<le> cap v) [4, 8] [(800, 800), (400, 400)] \<and>
   sorted [radius demo_bubble, 8, 12] \<and>
   pending_radius shrink_start = Some 40 \<and> cap (200, 200) < 40 \<and>
   map pending_radius (growth shrink_start [(200, 200)]) = [Some (cap (200, 200))] \<and>
   cap (200, 200) = 25"
proof -
  have h: "newBubble demo_growing = Some demo_bubble" by (simp add: demo_growing_eq)
  have g: "map pending_radius (growth demo_growing [(800, 800), (400, 400)])
             = [Some 8, Some 12]"
    by (simp add: run_def Let_def pending_radius_def demo_growing_eq demo_widget_eq
        expandBubble_def update_def updateBrush_def py_min3_def demo_bubble_fields)
  have c: "list_all2 (\<lambda>r v. r \<le> cap v) [4, 8] [(800, 800), (400, 400)]"
    by (simp add: cap_def)
  from growth_radii_capped_and_monotone [OF h, of "[(800, 800), (400, 400)]"]
  obtain rs where
    rs: "map pending_radius (growth demo_growing [(800, 800), (400, 400)]) = map Some rs"
        "sorted (radius demo_bubble # rs) =
           list_all2 (\<lambda>r v. r \<le> cap v) (butlast (radius demo_bubble # rs))
             [(800, 800), (400, 400)]"
    by blast
  from rs(1) g have r: "rs = [8, 12]" by (auto simp: map_eq_Cons_conv)
  have s: "sorted [radius demo_bubble, 8, 12]"
    using rs(2) c unfolding r by (simp add: demo_bubble_fields)
  obtain b where b: "newBubble shrink_start = Some b" "radius b = 40"
    by (simp add: shrink_start_eq updateBrush_def)
  have p: "pending_radius shrink_start = Some 40"
    by (simp add: pending_radius_def b)
  have k: "cap (200, 200) = 25" by (simp add: cap_def)
  from growth_radii_capped_and_monotone [OF b(1), of "[(200, 200)]"]
  obtain qs where
    qs: "map pending_radius (growth shrink_start [(200, 200)]) = map Some qs"
        "list_all2 (\<lambda>r v. r \<le> cap v) qs [(200, 200)]"
        "list_all2 (\<lambda>p v. cap v < fst p \<longrightarrow> snd p = cap v)
           (zip (radius b # qs) qs) [(200, 200)]"
    by blast
  from qs(2) obtain q where q: "qs = [q]" by (auto simp: list_all2_Cons2)
  from qs(3) have "q = cap (200, 200)" unfolding q by (simp add: b(2) k)
  with qs(1) have m: "map pending_radius (growth shrink_start [(200, 200)])
                        = [Some (cap (200, 200))]"
    by (simp add: q)
  have lt: "cap (200, 200) < 40" by (simp add: k)
  from h g c s p lt m k show ?thesis by blast
qed

end
